theory Spec2Isabelle
  imports Main "HOL-Library.Word"
begin

section \<open>Data model of the tensor expression engine\<close>

text \<open>
  The engine of \<^verbatim>\<open>mshadow/tensor_expr_engine-inl.hpp\<close> works on expression templates.
  What C++ keeps in the static type of an expression (the device and the rank of every
  tensor, the operator of every map, the transpose flags of a dot product) is data of the
  expression here, so that the template recursions become recursive functions.

  \<^item> \<^verbatim>\<open>index_t\<close> is the type parameter \<open>'i\<close> of the data. It is an unsigned machine
    integer whose width is fixed outside this file: wherever the code computes with
    indices, \<open>'i\<close> is \<open>'w word\<close> for an arbitrary width, and \<^verbatim>\<open>y * stride_ + x\<close>
    wraps at that width.
  \<^item> \<^verbatim>\<open>real_t\<close> is the element type \<open>'r\<close>; an operator \<^verbatim>\<open>OP\<close> is its static
    \<^verbatim>\<open>OP::Map\<close>.
  \<^item> Memory is a heap of elements; a \<^verbatim>\<open>real_t*\<close> is the address of an element and
    \<^verbatim>\<open>p[i]\<close> reads the heap at \<open>p + i\<close>.
\<close>

datatype Device = cpu | gpu

type_synonym 'r heap = "nat \<Rightarrow> 'r"

record 'i Shape =
  Shape_shape :: "'i list"
  Shape_stride :: 'i

record 'i Tensor =
  device :: Device
  dptr :: nat
  shape :: "'i Shape"

text \<open>The rank \<^verbatim>\<open>dim\<close> of a tensor is the number of its extents.\<close>

definition tdim :: "'i Tensor \<Rightarrow> nat" where
  "tdim t = length (Shape_shape (shape t))"

text \<open>
  The expressions that \<^verbatim>\<open>MakePlan\<close>, \<^verbatim>\<open>TypeCheck\<close> and \<^verbatim>\<open>ShapeCheck\<close> are written
  for. A tensor is its own \<^verbatim>\<open>ContainerExp\<close>; the last field of a map node is its
  template parameter \<^verbatim>\<open>etype\<close>.
\<close>

datatype ('i, 'r) Exp =
    ScalarExp 'r
  | ContainerExp "'i Tensor"
  | UnaryMapExp "'r \<Rightarrow> 'r" "('i, 'r) Exp" int
  | BinaryMapExp "'r \<Rightarrow> 'r \<Rightarrow> 'r" "('i, 'r) Exp" "('i, 'r) Exp" int

record ('i, 'r) DotExp =
  DotExp_lhs :: "'i Tensor"
  DotExp_rhs :: "'i Tensor"
  DotExp_scale :: 'r
  ltrans :: bool
  rtrans :: bool

subsection \<open>Plans\<close>

text \<open>One constructor for each specialisation of \<^verbatim>\<open>Plan\<close>, holding its private fields.\<close>

datatype ('i, 'r) Plan =
    Plan_Tensor nat 'i
  | Plan_ScalarExp 'r
  | Plan_BinaryMapExp "'r \<Rightarrow> 'r \<Rightarrow> 'r" "('i, 'r) Plan" "('i, 'r) Plan"
  | Plan_UnaryMapExp "'r \<Rightarrow> 'r" "('i, 'r) Plan"

fun Plan_Eval :: "('w::len word, 'r) Plan \<Rightarrow> 'r heap \<Rightarrow> 'w word \<Rightarrow> 'w word \<Rightarrow> 'r" where
  "Plan_Eval (Plan_Tensor dptr' stride') h y x = h (dptr' + unat (y * stride' + x))"
| "Plan_Eval (Plan_ScalarExp scalar') h y x = scalar'"
| "Plan_Eval (Plan_BinaryMapExp OP lhs' rhs') h y x =
     OP (Plan_Eval lhs' h y x) (Plan_Eval rhs' h y x)"
| "Plan_Eval (Plan_UnaryMapExp OP src') h y x = OP (Plan_Eval src' h y x)"

fun MakePlan :: "('i, 'r) Exp \<Rightarrow> ('i, 'r) Plan" where
  "MakePlan (ScalarExp scalar') = Plan_ScalarExp scalar'"
| "MakePlan (ContainerExp t) = Plan_Tensor (dptr t) (Shape_stride (shape t))"
| "MakePlan (UnaryMapExp OP src' etype) = Plan_UnaryMapExp OP (MakePlan src')"
| "MakePlan (BinaryMapExp OP lhs' rhs' etype) =
     Plan_BinaryMapExp OP (MakePlan lhs') (MakePlan rhs')"

subsection \<open>Static type check\<close>

text \<open>
  \<^verbatim>\<open>TypeCheck<Device,dim,E>::kPass\<close>. The primary template answers \<^verbatim>\<open>false\<close>; of the
  tensor types only \<^verbatim>\<open>Tensor<Device,dim>\<close> itself has the specialisation that answers
  \<^verbatim>\<open>true\<close>, so a tensor of another device or rank falls to the primary template.
\<close>

fun TypeCheck :: "Device \<Rightarrow> nat \<Rightarrow> ('i, 'r) Exp \<Rightarrow> bool" where
  "TypeCheck Device' dim (ScalarExp scalar') = True"
| "TypeCheck Device' dim (ContainerExp t) =
     (if device t = Device' \<and> tdim t = dim then True else False)"
| "TypeCheck Device' dim (UnaryMapExp OP TA etype) = TypeCheck Device' dim TA"
| "TypeCheck Device' dim (BinaryMapExp OP TA TB etype) =
     (TypeCheck Device' dim TA \<and> TypeCheck Device' dim TB)"

text \<open>
  Failures are values. The first is the one the compiler reports when
  \<^verbatim>\<open>TypeCheckPass<false>\<close> has no member to call, the last the one of a call that no
  overload or no defined specialisation takes; \<open>IncompatibleShape\<close> is the failed
  assertion of the shape check. The heap beside the error is the heap at the failure.
\<close>

datatype error =
    Error_All_Tensor_in_Exp_Must_Have_Same_Type
  | IncompatibleShape
  | No_matching_function

type_synonym 'r result = "(error \<times> 'r heap) + 'r heap"

definition TypeCheckPass :: "bool \<Rightarrow> 'r heap \<Rightarrow> 'r result" where
  "TypeCheckPass kPass h =
     (if kPass then Inr h else Inl (Error_All_Tensor_in_Exp_Must_Have_Same_Type, h))"

subsection \<open>Shape check\<close>

text \<open>
  Modelled from the spec: the comparison of two \<^verbatim>\<open>Shape\<close> values and their indexing
  \<^verbatim>\<open>shape[i]\<close> belong to the shape descriptor, which is not part of this file. Two
  shapes are equal when their extents are; the row stride is a separate part of a
  tensor reference (spec, section 3).
\<close>

definition Shape_eq :: "'i Shape \<Rightarrow> 'i Shape \<Rightarrow> bool" where
  "Shape_eq a b = (Shape_shape a = Shape_shape b)"

definition Shape_index :: "'i Shape \<Rightarrow> nat \<Rightarrow> 'i" where
  "Shape_index s i = Shape_shape s ! i"

fun ShapeCheck_Check :: "('i, 'r) Exp \<Rightarrow> 'i Shape \<Rightarrow> bool" where
  "ShapeCheck_Check (ScalarExp exp) shape' = True"
| "ShapeCheck_Check (ContainerExp t) shape' = Shape_eq (shape t) shape'"
| "ShapeCheck_Check (UnaryMapExp OP src' etype) shape' = ShapeCheck_Check src' shape'"
| "ShapeCheck_Check (BinaryMapExp OP lhs' rhs' etype) shape' =
     (ShapeCheck_Check lhs' shape' \<and> ShapeCheck_Check rhs' shape')"

text \<open>
  Modelled from the spec: \<^verbatim>\<open>utils::Assert\<close> is not part of this file. A failed shape
  check is the fatal error \<open>IncompatibleShape\<close> (spec, sections 4.2 and 7); nothing after
  it runs.
\<close>

definition Assert :: "bool \<Rightarrow> error \<Rightarrow> 'r heap \<Rightarrow> 'r result" where
  "Assert exp msg h = (if exp then Inr h else Inl (msg, h))"

subsection \<open>The per-coordinate executor\<close>

text \<open>
  Modelled from the spec: \<^verbatim>\<open>MapPlan\<close> is not part of this file. Spec, section 6: it
  ``iterates every coordinate of destination in an unspecified but complete order and
  writes \<^verbatim>\<open>saverPolicy.Combine(destination[y][x], plan.Eval(y,x))\<close>''. The order is the
  parameter \<open>order\<close>, which lists the coordinates \<open>(y, x)\<close> of a destination; the saver
  \<open>SV\<close> gives the new element from the old one and the plan's value; the element
  \<open>[y][x]\<close> of a tensor is the one a leaf plan bound to the tensor reads.
\<close>

definition elem_addr :: "('w::len) word Tensor \<Rightarrow> 'w word \<Rightarrow> 'w word \<Rightarrow> nat" where
  "elem_addr t y x = dptr t + unat (y * Shape_stride (shape t) + x)"

definition Save_at ::
  "('r \<Rightarrow> 'r \<Rightarrow> 'r) \<Rightarrow> ('w::len) word Tensor \<Rightarrow> ('w word, 'r) Plan \<Rightarrow>
   'w word \<times> 'w word \<Rightarrow> 'r heap \<Rightarrow> 'r heap" where
  "Save_at SV dst plan c h =
     h(elem_addr dst (fst c) (snd c) :=
         SV (h (elem_addr dst (fst c) (snd c))) (Plan_Eval plan h (fst c) (snd c)))"

definition MapPlan ::
  "(('w::len) word Tensor \<Rightarrow> ('w word \<times> 'w word) list) \<Rightarrow> ('r \<Rightarrow> 'r \<Rightarrow> 'r) \<Rightarrow>
   'w word Tensor \<Rightarrow> ('w word, 'r) Plan \<Rightarrow> 'r heap \<Rightarrow> 'r heap" where
  "MapPlan order SV dst plan h = fold (Save_at SV dst plan) (order dst) h"

subsection \<open>The dot engine\<close>

datatype CBLAS_ORDER = CblasRowMajor | CblasColMajor

datatype CBLAS_TRANSPOSE = CblasNoTrans | CblasTrans | CblasConjTrans

text \<open>
  The backend's \<^verbatim>\<open>cblas_sgemm\<close> is a parameter: it takes the fourteen arguments of the
  call, in the order of the call, and the heap, and returns the heap it leaves.
\<close>

type_synonym ('i, 'r) sgemm =
  "CBLAS_ORDER \<Rightarrow> CBLAS_TRANSPOSE \<Rightarrow> CBLAS_TRANSPOSE \<Rightarrow> 'i \<Rightarrow> 'i \<Rightarrow> 'i \<Rightarrow>
   'r \<Rightarrow> nat \<Rightarrow> 'i \<Rightarrow> nat \<Rightarrow> 'i \<Rightarrow> 'r \<Rightarrow> nat \<Rightarrow> 'i \<Rightarrow> 'r heap \<Rightarrow> 'r heap"

definition DotEngine_cpu_2_2_2_Eval ::
  "('i, 'r::zero) sgemm \<Rightarrow> bool \<Rightarrow> bool \<Rightarrow> 'i Tensor \<Rightarrow> 'i Tensor \<Rightarrow> 'i Tensor \<Rightarrow> 'r \<Rightarrow>
   'r heap \<Rightarrow> 'r result" where
  "DotEngine_cpu_2_2_2_Eval cblas_sgemm ltrans' rtrans' dst lhs rhs scale h =
     (let op_lhs = (if ltrans' then CblasTrans else CblasNoTrans);
          op_rhs = (if rtrans' then CblasTrans else CblasNoTrans);
          M = (if ltrans' then Shape_index (shape lhs) 1 else Shape_index (shape lhs) 0);
          K = (if ltrans' then Shape_index (shape lhs) 0 else Shape_index (shape lhs) 1);
          N = (if rtrans' then Shape_index (shape rhs) 0 else Shape_index (shape rhs) 1);
          LDA = (if ltrans' then Shape_index (shape lhs) 1 else Shape_index (shape lhs) 0);
          LDB = (if rtrans' then Shape_index (shape rhs) 1 else Shape_index (shape rhs) 0)
      in Inr (cblas_sgemm CblasColMajor op_lhs op_rhs M N K scale
                (dptr lhs) LDA (dptr rhs) LDB 0 (dptr dst) LDA h))"

definition DotEngine_cpu_1_1_2_Eval ::
  "bool \<Rightarrow> 'i Tensor \<Rightarrow> 'i Tensor \<Rightarrow> 'i Tensor \<Rightarrow> 'r \<Rightarrow> 'r heap \<Rightarrow> 'r result" where
  "DotEngine_cpu_1_1_2_Eval rtrans' dst lhs rhs scale h =
     (let op_rhs = (if rtrans' then CblasTrans else CblasNoTrans) in Inr h)"

definition DotEngine_cpu_2_1_1_Eval ::
  "'i Tensor \<Rightarrow> 'i Tensor \<Rightarrow> 'i Tensor \<Rightarrow> 'r \<Rightarrow> 'r heap \<Rightarrow> 'r result" where
  "DotEngine_cpu_2_1_1_Eval dst lhs rhs scale h = Inr h"

definition DotEngine_gpu_2_2_2_Eval ::
  "bool \<Rightarrow> bool \<Rightarrow> 'i Tensor \<Rightarrow> 'i Tensor \<Rightarrow> 'i Tensor \<Rightarrow> 'r \<Rightarrow> 'r heap \<Rightarrow> 'r result" where
  "DotEngine_gpu_2_2_2_Eval ltrans' rtrans' dst lhs rhs scale h = Inr h"

definition DotEngine_gpu_1_1_2_Eval ::
  "bool \<Rightarrow> 'i Tensor \<Rightarrow> 'i Tensor \<Rightarrow> 'i Tensor \<Rightarrow> 'r \<Rightarrow> 'r heap \<Rightarrow> 'r result" where
  "DotEngine_gpu_1_1_2_Eval rtrans' dst lhs rhs scale h = Inr h"

definition DotEngine_gpu_2_1_1_Eval ::
  "'i Tensor \<Rightarrow> 'i Tensor \<Rightarrow> 'i Tensor \<Rightarrow> 'r \<Rightarrow> 'r heap \<Rightarrow> 'r result" where
  "DotEngine_gpu_2_1_1_Eval dst lhs rhs scale h = Inr h"

text \<open>
  \<^verbatim>\<open>DotEngine<Device,ddim,ldim,rdim,ltrans,rtrans>::Eval\<close>: the specialisation that
  the template arguments select. The primary template declares \<^verbatim>\<open>Eval\<close> and never
  defines it, so any other combination does not build.
\<close>

definition DotEngine_Eval ::
  "('i, 'r::zero) sgemm \<Rightarrow> Device \<Rightarrow> nat \<Rightarrow> nat \<Rightarrow> nat \<Rightarrow> bool \<Rightarrow> bool \<Rightarrow>
   'i Tensor \<Rightarrow> 'i Tensor \<Rightarrow> 'i Tensor \<Rightarrow> 'r \<Rightarrow> 'r heap \<Rightarrow> 'r result" where
  "DotEngine_Eval cblas_sgemm Device' ddim ldim rdim ltrans' rtrans' dst lhs rhs scale h =
     (if Device' = cpu \<and> ddim = 2 \<and> ldim = 2 \<and> rdim = 2
        then DotEngine_cpu_2_2_2_Eval cblas_sgemm ltrans' rtrans' dst lhs rhs scale h
      else if Device' = cpu \<and> ddim = 1 \<and> ldim = 1 \<and> rdim = 2 \<and> \<not> ltrans'
        then DotEngine_cpu_1_1_2_Eval rtrans' dst lhs rhs scale h
      else if Device' = cpu \<and> ddim = 2 \<and> ldim = 1 \<and> rdim = 1 \<and> ltrans' \<and> \<not> rtrans'
        then DotEngine_cpu_2_1_1_Eval dst lhs rhs scale h
      else if Device' = gpu \<and> ddim = 2 \<and> ldim = 2 \<and> rdim = 2
        then DotEngine_gpu_2_2_2_Eval ltrans' rtrans' dst lhs rhs scale h
      else if Device' = gpu \<and> ddim = 1 \<and> ldim = 1 \<and> rdim = 2 \<and> \<not> ltrans'
        then DotEngine_gpu_1_1_2_Eval rtrans' dst lhs rhs scale h
      else if Device' = gpu \<and> ddim = 2 \<and> ldim = 1 \<and> rdim = 1 \<and> ltrans' \<and> \<not> rtrans'
        then DotEngine_gpu_2_1_1_Eval dst lhs rhs scale h
      else Inl (No_matching_function, h))"

subsection \<open>The expression engine\<close>

text \<open>
  The three overloads of \<^verbatim>\<open>ExpEngine<SV, Tensor<Device,dim> >::Eval\<close>. \<^verbatim>\<open>Device\<close> and
  \<^verbatim>\<open>dim\<close> are those of the destination. The overload for a dot product takes operands
  of the destination's device only; their ranks are deduced from the operands.
\<close>

definition ExpEngine_Eval_kMapper ::
  "(('w::len) word Tensor \<Rightarrow> ('w word \<times> 'w word) list) \<Rightarrow> ('r \<Rightarrow> 'r \<Rightarrow> 'r) \<Rightarrow>
   'w word Tensor \<Rightarrow> ('w word, 'r) Exp \<Rightarrow> 'r heap \<Rightarrow> 'r result" where
  "ExpEngine_Eval_kMapper order SV dst exp h =
     (case TypeCheckPass (TypeCheck (device dst) (tdim dst) exp) h of
        Inl e \<Rightarrow> Inl e
      | Inr h1 \<Rightarrow>
          (case Assert (ShapeCheck_Check exp (shape dst)) IncompatibleShape h1 of
             Inl e \<Rightarrow> Inl e
           | Inr h2 \<Rightarrow> Inr (MapPlan order SV dst (MakePlan exp) h2)))"

definition ExpEngine_Eval_kContainer ::
  "(('w::len) word Tensor \<Rightarrow> ('w word \<times> 'w word) list) \<Rightarrow> ('r \<Rightarrow> 'r \<Rightarrow> 'r) \<Rightarrow>
   'w word Tensor \<Rightarrow> ('w word, 'r) Exp \<Rightarrow> 'r heap \<Rightarrow> 'r result" where
  "ExpEngine_Eval_kContainer order SV dst exp h =
     (case TypeCheckPass (TypeCheck (device dst) (tdim dst) exp) h of
        Inl e \<Rightarrow> Inl e
      | Inr h1 \<Rightarrow>
          (case Assert (ShapeCheck_Check exp (shape dst)) IncompatibleShape h1 of
             Inl e \<Rightarrow> Inl e
           | Inr h2 \<Rightarrow> Inr (MapPlan order SV dst (MakePlan exp) h2)))"

definition ExpEngine_Eval_DotExp ::
  "('i, 'r::zero) sgemm \<Rightarrow> ('r \<Rightarrow> 'r \<Rightarrow> 'r) \<Rightarrow> 'i Tensor \<Rightarrow> ('i, 'r) DotExp \<Rightarrow>
   'r heap \<Rightarrow> 'r result" where
  "ExpEngine_Eval_DotExp cblas_sgemm SV dst exp h =
     (if device (DotExp_lhs exp) = device dst \<and> device (DotExp_rhs exp) = device dst
      then DotEngine_Eval cblas_sgemm (device dst) (tdim dst)
             (tdim (DotExp_lhs exp)) (tdim (DotExp_rhs exp)) (ltrans exp) (rtrans exp)
             dst (DotExp_lhs exp) (DotExp_rhs exp) (DotExp_scale exp) h
      else Inl (No_matching_function, h))"

section \<open>What the specification says\<close>

text \<open>
  The structural recursive denotation of an expression at a coordinate (spec, sections
  4.3 and 8): a tensor reference denotes the element at \<^verbatim>\<open>base[y*stride + x]\<close>, a scalar
  its constant, a map its operator applied to what its operands denote. The index is
  computed in \<^verbatim>\<open>index_t\<close>.
\<close>

fun denotation :: "(('w::len) word, 'r) Exp \<Rightarrow> 'r heap \<Rightarrow> 'w word \<Rightarrow> 'w word \<Rightarrow> 'r" where
  "denotation (ScalarExp c) h y x = c"
| "denotation (ContainerExp t) h y x = h (dptr t + unat (y * Shape_stride (shape t) + x))"
| "denotation (UnaryMapExp f a k) h y x = f (denotation a h y x)"
| "denotation (BinaryMapExp g a b k) h y x = g (denotation a h y x) (denotation b h y x)"

text \<open>One step of an evaluation that writes the denotation itself, without any plan.\<close>

definition write_denotation ::
  "('r \<Rightarrow> 'r \<Rightarrow> 'r) \<Rightarrow> ('w::len) word Tensor \<Rightarrow> ('w word, 'r) Exp \<Rightarrow>
   'w word \<times> 'w word \<Rightarrow> 'r heap \<Rightarrow> 'r heap" where
  "write_denotation SV dst exp c h =
     h(elem_addr dst (fst c) (snd c) :=
         SV (h (elem_addr dst (fst c) (snd c))) (denotation exp h (fst c) (snd c)))"

text \<open>The tensor leaves of an expression, left to right.\<close>

fun tensors_of :: "('i, 'r) Exp \<Rightarrow> 'i Tensor list" where
  "tensors_of (ScalarExp c) = []"
| "tensors_of (ContainerExp t) = [t]"
| "tensors_of (UnaryMapExp f a k) = tensors_of a"
| "tensors_of (BinaryMapExp g a b k) = tensors_of a @ tensors_of b"

text \<open>
  The underlying buffers: the cells a plan reads at a coordinate, the cells the leaves of
  an expression have at a coordinate, and all the cells one evaluation call touches.
\<close>

fun Plan_reads :: "(('w::len) word, 'r) Plan \<Rightarrow> 'w word \<Rightarrow> 'w word \<Rightarrow> nat set" where
  "Plan_reads (Plan_Tensor p s) y x = {p + unat (y * s + x)}"
| "Plan_reads (Plan_ScalarExp c) y x = {}"
| "Plan_reads (Plan_BinaryMapExp g l r) y x = Plan_reads l y x \<union> Plan_reads r y x"
| "Plan_reads (Plan_UnaryMapExp f a) y x = Plan_reads a y x"

fun leaf_cells :: "(('w::len) word, 'r) Exp \<Rightarrow> 'w word \<Rightarrow> 'w word \<Rightarrow> nat set" where
  "leaf_cells (ScalarExp c) y x = {}"
| "leaf_cells (ContainerExp t) y x = {elem_addr t y x}"
| "leaf_cells (UnaryMapExp f a k) y x = leaf_cells a y x"
| "leaf_cells (BinaryMapExp g a b k) y x = leaf_cells a y x \<union> leaf_cells b y x"

definition agree_on :: "nat set \<Rightarrow> 'r heap \<Rightarrow> 'r heap \<Rightarrow> bool" where
  "agree_on F hA hB = (\<forall>a \<in> F. hA a = hB a)"

definition footprint ::
  "('w::len) word Tensor \<Rightarrow> ('w word, 'r) Exp \<Rightarrow> ('w word \<times> 'w word) list \<Rightarrow> nat set" where
  "footprint dst exp cs =
     (\<Union>c \<in> set cs. insert (elem_addr dst (fst c) (snd c)) (leaf_cells exp (fst c) (snd c)))"

definition dst_contents ::
  "('w::len) word Tensor \<Rightarrow> ('w word \<times> 'w word) list \<Rightarrow> 'r heap \<Rightarrow> 'r list" where
  "dst_contents dst cs h = map (\<lambda>c. h (elem_addr dst (fst c) (snd c))) cs"

text \<open>
  The destination is laid out apart from what the expression reads: the visited
  coordinates have different cells, and the cell of one coordinate is no cell that a
  leaf has at another coordinate. A leaf may be the destination itself.
\<close>

definition separate ::
  "('w::len) word Tensor \<Rightarrow> ('w word, 'r) Exp \<Rightarrow> ('w word \<times> 'w word) list \<Rightarrow> bool" where
  "separate dst exp cs =
     (distinct (map (\<lambda>c. elem_addr dst (fst c) (snd c)) cs) \<and>
      (\<forall>c \<in> set cs. \<forall>c' \<in> set cs.
         c' \<noteq> c \<longrightarrow> elem_addr dst (fst c') (snd c') \<notin> leaf_cells exp (fst c) (snd c)))"

text \<open>
  A saver that overwrites takes nothing from the old element. The inputs of a call are
  apart from its destination when no visited cell of the destination is a cell that a
  leaf has at a visited coordinate: then the call leaves its inputs as they were.
\<close>

definition overwrites :: "('r \<Rightarrow> 'r \<Rightarrow> 'r) \<Rightarrow> bool" where
  "overwrites SV = (\<forall>a a' b. SV a b = SV a' b)"

definition inputs_apart ::
  "('w::len) word Tensor \<Rightarrow> ('w word, 'r) Exp \<Rightarrow> ('w word \<times> 'w word) list \<Rightarrow> bool" where
  "inputs_apart dst exp cs =
     (\<forall>c \<in> set cs. \<forall>c' \<in> set cs.
        elem_addr dst (fst c') (snd c') \<notin> leaf_cells exp (fst c) (snd c))"

text \<open>
  The row and column counts of a matrix operand as the dot engine names them
  (\<^verbatim>\<open>shape[0]\<close> is its ``row'', \<^verbatim>\<open>shape[1]\<close> its ``col''), the counts of the operand
  after its transpose flag is applied, and the directive of a flag.
\<close>

definition rows :: "'i Tensor \<Rightarrow> 'i" where
  "rows t = Shape_index (shape t) 0"

definition cols :: "'i Tensor \<Rightarrow> 'i" where
  "cols t = Shape_index (shape t) 1"

definition op_rows :: "bool \<Rightarrow> 'i Tensor \<Rightarrow> 'i" where
  "op_rows trans' t = (if trans' then cols t else rows t)"

definition op_cols :: "bool \<Rightarrow> 'i Tensor \<Rightarrow> 'i" where
  "op_cols trans' t = (if trans' then rows t else cols t)"

definition trans_directive :: "bool \<Rightarrow> CBLAS_TRANSPOSE" where
  "trans_directive trans' = (if trans' then CblasTrans else CblasNoTrans)"

section \<open>Concrete inputs\<close>

text \<open>
  Tensors of 32-bit indices over integer elements: a destination and two operands of
  two rows of two elements, laid out one after the other, and the expression
  \<^verbatim>\<open>a + b * 2\<close> of the spec's scenario.
\<close>

definition ex_dst :: "32 word Tensor" where
  "ex_dst = \<lparr>device = cpu, dptr = 0, shape = \<lparr>Shape_shape = [2, 2], Shape_stride = 2\<rparr>\<rparr>"

definition ex_a :: "32 word Tensor" where
  "ex_a = \<lparr>device = cpu, dptr = 4, shape = \<lparr>Shape_shape = [2, 2], Shape_stride = 2\<rparr>\<rparr>"

definition ex_b :: "32 word Tensor" where
  "ex_b = \<lparr>device = cpu, dptr = 8, shape = \<lparr>Shape_shape = [2, 2], Shape_stride = 2\<rparr>\<rparr>"

definition ex_exp :: "(32 word, int) Exp" where
  "ex_exp = BinaryMapExp (+) (ContainerExp ex_a)
              (BinaryMapExp (*) (ContainerExp ex_b) (ScalarExp 2) 1) 1"

definition ex_heap :: "int heap" where
  "ex_heap = (\<lambda>a. if a < 4 then 0 else if a < 8 then 1 else 2)"

definition ex_order :: "32 word Tensor \<Rightarrow> (32 word \<times> 32 word) list" where
  "ex_order t = [(0, 0), (0, 1), (1, 0), (1, 1)]"

definition saveto :: "int \<Rightarrow> int \<Rightarrow> int" where
  "saveto a b = b"

text \<open>The spec's mismatch: a destination of shape (3,4) and an operand of shape (3,5).\<close>

definition ex_dst34 :: "32 word Tensor" where
  "ex_dst34 = \<lparr>device = cpu, dptr = 0, shape = \<lparr>Shape_shape = [3, 4], Shape_stride = 3\<rparr>\<rparr>"

definition ex_t35 :: "32 word Tensor" where
  "ex_t35 = \<lparr>device = cpu, dptr = 12, shape = \<lparr>Shape_shape = [3, 5], Shape_stride = 3\<rparr>\<rparr>"

text \<open>
  Operands of a dot product whose two extents differ, a vector, and a backend that
  leaves the heap as it is.
\<close>

definition ex_lhs :: "32 word Tensor" where
  "ex_lhs = \<lparr>device = cpu, dptr = 12, shape = \<lparr>Shape_shape = [2, 3], Shape_stride = 2\<rparr>\<rparr>"

definition ex_rhs :: "32 word Tensor" where
  "ex_rhs = \<lparr>device = cpu, dptr = 18, shape = \<lparr>Shape_shape = [2, 4], Shape_stride = 2\<rparr>\<rparr>"

definition ex_mdst :: "32 word Tensor" where
  "ex_mdst = \<lparr>device = cpu, dptr = 0, shape = \<lparr>Shape_shape = [3, 4], Shape_stride = 3\<rparr>\<rparr>"

definition ex_vec :: "32 word Tensor" where
  "ex_vec = \<lparr>device = cpu, dptr = 26, shape = \<lparr>Shape_shape = [2], Shape_stride = 2\<rparr>\<rparr>"

definition ex_vdst :: "32 word Tensor" where
  "ex_vdst = \<lparr>device = cpu, dptr = 0, shape = \<lparr>Shape_shape = [4], Shape_stride = 4\<rparr>\<rparr>"

definition ex_dot :: "(32 word, int) DotExp" where
  "ex_dot = \<lparr>DotExp_lhs = ex_lhs, DotExp_rhs = ex_rhs, DotExp_scale = 1,
             ltrans = True, rtrans = False\<rparr>"

definition ex_sgemm :: "(32 word, int) sgemm" where
  "ex_sgemm layout transA transB M N K alpha A lda B ldb beta C ldc h = h"

definition ex_heap' :: "int heap" where
  "ex_heap' = ex_heap(100 := 7)"

definition ex_bad_exp :: "(32 word, int) Exp" where
  "ex_bad_exp = BinaryMapExp (+) (ContainerExp ex_t35) (ScalarExp 1) 1"

definition ex_vdot :: "(32 word, int) DotExp" where
  "ex_vdot = \<lparr>DotExp_lhs = ex_vec, DotExp_rhs = ex_rhs, DotExp_scale = 1,
              ltrans = False, rtrans = False\<rparr>"

lemmas ex_defs = ex_dst_def ex_a_def ex_b_def ex_exp_def ex_heap_def ex_order_def saveto_def

lemmas dot_defs = DotEngine_Eval_def DotEngine_cpu_2_2_2_Eval_def DotEngine_cpu_1_1_2_Eval_def
  DotEngine_cpu_2_1_1_Eval_def DotEngine_gpu_2_2_2_Eval_def DotEngine_gpu_1_1_2_Eval_def
  DotEngine_gpu_2_1_1_Eval_def

section \<open>Plan compilation\<close>

lemma Plan_Eval_MakePlan: "Plan_Eval (MakePlan exp) h y x = denotation exp h y x"
  by (induction exp) simp_all

lemma Save_at_MakePlan: "Save_at SV dst (MakePlan exp) = write_denotation SV dst exp"
  by (rule ext, rule ext) (simp add: Save_at_def write_denotation_def Plan_Eval_MakePlan)

lemma Eval_kMapper_checked:
  assumes "TypeCheck (device dst) (tdim dst) exp" and "ShapeCheck_Check exp (shape dst)"
  shows "ExpEngine_Eval_kMapper order SV dst exp h = Inr (MapPlan order SV dst (MakePlan exp) h)"
  using assms by (simp add: ExpEngine_Eval_kMapper_def TypeCheckPass_def Assert_def)

lemma Eval_kContainer_checked:
  assumes "TypeCheck (device dst) (tdim dst) exp" and "ShapeCheck_Check exp (shape dst)"
  shows "ExpEngine_Eval_kContainer order SV dst exp h =
         Inr (MapPlan order SV dst (MakePlan exp) h)"
  using assms by (simp add: ExpEngine_Eval_kContainer_def TypeCheckPass_def Assert_def)

lemma MapPlan_MakePlan:
  "MapPlan order SV dst (MakePlan exp) h = fold (write_denotation SV dst exp) (order dst) h"
  by (simp add: MapPlan_def Save_at_MakePlan)

subsection \<open>Frame properties\<close>

lemma Plan_Eval_frame:
  "(\<forall>a \<in> Plan_reads p y x. hA a = hB a) \<Longrightarrow> Plan_Eval p hA y x = Plan_Eval p hB y x"
  by (induction p) auto

lemma Plan_reads_MakePlan: "Plan_reads (MakePlan exp) y x = leaf_cells exp y x"
  by (induction exp) (auto simp: elem_addr_def)

lemma denotation_frame:
  "(\<forall>a \<in> leaf_cells exp y x. hA a = hB a) \<Longrightarrow> denotation exp hA y x = denotation exp hB y x"
  by (induction exp) (auto simp: elem_addr_def)

lemma fold_write_frame:
  "a \<notin> (\<lambda>c. elem_addr dst (fst c) (snd c)) ` set cs \<Longrightarrow>
   fold (write_denotation SV dst exp) cs h a = h a"
  by (induction cs arbitrary: h) (auto simp: write_denotation_def)

text \<open>
  What the loop leaves in the cell of a visited coordinate, when the destination is
  separate: the saver applied to the cell's first content and to the denotation on the
  first heap.
\<close>

lemma fold_write_values:
  assumes "distinct (map (\<lambda>c. elem_addr dst (fst c) (snd c)) cs)"
    and "\<forall>c \<in> set cs. \<forall>c' \<in> set cs. c' \<noteq> c \<longrightarrow>
           elem_addr dst (fst c') (snd c') \<notin> leaf_cells exp (fst c) (snd c)"
    and "c \<in> set cs"
  shows "fold (write_denotation SV dst exp) cs h (elem_addr dst (fst c) (snd c)) =
         SV (h (elem_addr dst (fst c) (snd c))) (denotation exp h (fst c) (snd c))"
  using assms
proof (induction cs arbitrary: h)
  case Nil
  then show ?case by simp
next
  case (Cons c0 cs)
  let ?A = "\<lambda>c. elem_addr dst (fst c) (snd c)"
  let ?h1 = "write_denotation SV dst exp c0 h"
  from Cons.prems(1) have nin: "?A c0 \<notin> ?A ` set cs" by simp
  show ?case
  proof (cases "c = c0")
    case True
    from nin have "fold (write_denotation SV dst exp) cs ?h1 (?A c0) = ?h1 (?A c0)"
      by (rule fold_write_frame)
    also have "?h1 (?A c0) = SV (h (?A c0)) (denotation exp h (fst c0) (snd c0))"
      by (simp add: write_denotation_def)
    finally show ?thesis using True by simp
  next
    case False
    with Cons.prems(3) have c_in: "c \<in> set cs" by simp
    from Cons.prems(1) have d: "distinct (map ?A cs)" by simp
    from Cons.prems(2) have al: "\<forall>c \<in> set cs. \<forall>c' \<in> set cs. c' \<noteq> c \<longrightarrow>
           ?A c' \<notin> leaf_cells exp (fst c) (snd c)" by simp
    have IH: "fold (write_denotation SV dst exp) cs ?h1 (?A c) =
              SV (?h1 (?A c)) (denotation exp ?h1 (fst c) (snd c))"
      by (rule Cons.IH [OF d al c_in])
    from c_in have in_img: "?A c \<in> ?A ` set cs" by (rule imageI)
    have ne: "?A c \<noteq> ?A c0"
    proof
      assume "?A c = ?A c0"
      with in_img nin show False by simp
    qed
    from Cons.prems(2) c_in False have "?A c0 \<notin> leaf_cells exp (fst c) (snd c)" by simp
    then have "\<forall>a \<in> leaf_cells exp (fst c) (snd c). ?h1 a = h a"
      by (auto simp: write_denotation_def)
    then have "denotation exp ?h1 (fst c) (snd c) = denotation exp h (fst c) (snd c)"
      by (rule denotation_frame)
    moreover from ne have "?h1 (?A c) = h (?A c)" by (simp add: write_denotation_def)
    ultimately show ?thesis using IH by simp
  qed
qed

text \<open>
  Claim C1. For an expression that passes the device and rank check and the shape check
  against the destination, the plan that \<open>MakePlan\<close> compiles has, at every coordinate
  and on every heap, the value of the structural recursive denotation: the element at
  \<^verbatim>\<open>base[y*stride + x]\<close> for a tensor, the constant for a scalar, the operator applied
  to the operands' values for a map. Both elementwise overloads of the engine therefore
  return, and what they do to the heap is the loop that writes, at each destination
  coordinate in turn, the saver applied to the destination's element and to the
  denotation; when the destination is separate, each visited element ends as the saver
  applied to its first content and to the denotation on the first heap.
\<close>

theorem MakePlan_denotation:
  assumes "TypeCheck (device dst) (tdim dst) exp" and "ShapeCheck_Check exp (shape dst)"
  shows "(\<forall>h y x. Plan_Eval (MakePlan exp) h y x = denotation exp h y x) \<and>
         ExpEngine_Eval_kMapper order SV dst exp h =
           Inr (fold (write_denotation SV dst exp) (order dst) h) \<and>
         ExpEngine_Eval_kContainer order SV dst exp h =
           Inr (fold (write_denotation SV dst exp) (order dst) h) \<and>
         (separate dst exp (order dst) \<longrightarrow>
            (\<forall>c \<in> set (order dst).
               fold (write_denotation SV dst exp) (order dst) h (elem_addr dst (fst c) (snd c)) =
               SV (h (elem_addr dst (fst c) (snd c))) (denotation exp h (fst c) (snd c))))"
proof (intro conjI allI impI ballI)
  fix h' y x
  show "Plan_Eval (MakePlan exp) h' y x = denotation exp h' y x"
    by (rule Plan_Eval_MakePlan)
next
  show "ExpEngine_Eval_kMapper order SV dst exp h =
        Inr (fold (write_denotation SV dst exp) (order dst) h)"
    using assms by (simp add: Eval_kMapper_checked MapPlan_MakePlan)
next
  show "ExpEngine_Eval_kContainer order SV dst exp h =
        Inr (fold (write_denotation SV dst exp) (order dst) h)"
    using assms by (simp add: Eval_kContainer_checked MapPlan_MakePlan)
next
  fix c
  assume sep: "separate dst exp (order dst)" and c: "c \<in> set (order dst)"
  from sep have "distinct (map (\<lambda>c. elem_addr dst (fst c) (snd c)) (order dst))"
    and "\<forall>c \<in> set (order dst). \<forall>c' \<in> set (order dst). c' \<noteq> c \<longrightarrow>
           elem_addr dst (fst c') (snd c') \<notin> leaf_cells exp (fst c) (snd c)"
    by (simp_all add: separate_def)
  then show "fold (write_denotation SV dst exp) (order dst) h (elem_addr dst (fst c) (snd c)) =
        SV (h (elem_addr dst (fst c) (snd c))) (denotation exp h (fst c) (snd c))"
    using c by (rule fold_write_values)
qed

theorem MakePlan_denotation_witness:
  "TypeCheck (device ex_dst) (tdim ex_dst) ex_exp \<and>
   ShapeCheck_Check ex_exp (shape ex_dst) \<and>
   separate ex_dst ex_exp (ex_order ex_dst) \<and>
   Plan_Eval (MakePlan ex_exp) ex_heap 1 0 = 5 \<and>
   (case ExpEngine_Eval_kMapper ex_order saveto ex_dst ex_exp ex_heap of
      Inl e \<Rightarrow> False
    | Inr h' \<Rightarrow> map h' [0, 1, 2, 3] = [5, 5, 5, 5])"
proof -
  have tc: "TypeCheck (device ex_dst) (tdim ex_dst) ex_exp"
    by (simp add: ex_defs tdim_def)
  have sc: "ShapeCheck_Check ex_exp (shape ex_dst)"
    by (simp add: ex_defs Shape_eq_def)
  have sep: "separate ex_dst ex_exp (ex_order ex_dst)"
    by (simp add: ex_defs separate_def elem_addr_def)
  show ?thesis
    using MakePlan_denotation [OF tc sc, of ex_order saveto ex_heap] tc sc sep
    by (simp add: ex_defs elem_addr_def)
qed

text \<open>
  Where \<^verbatim>\<open>y * stride + x\<close> does not overflow \<^verbatim>\<open>index_t\<close>, the element of a tensor at a
  coordinate is at the index computed in the natural numbers.
\<close>

lemma elem_addr_no_overflow:
  fixes t :: "('w::len) word Tensor"
  assumes "unat y * unat (Shape_stride (shape t)) + unat x < 2 ^ LENGTH('w)"
  shows "elem_addr t y x = dptr t + unat y * unat (Shape_stride (shape t)) + unat x"
  using assms by (simp add: elem_addr_def unat_word_ariths)

section \<open>The compatibility checks\<close>

lemma TypeCheck_tensors_of:
  "TypeCheck D n exp = (\<forall>t \<in> set (tensors_of exp). device t = D \<and> tdim t = n)"
  by (induction exp) auto

lemma ShapeCheck_tensors_of:
  "ShapeCheck_Check exp s =
   (\<forall>t \<in> set (tensors_of exp). Shape_shape (shape t) = Shape_shape s)"
  by (induction exp) (auto simp: Shape_eq_def)

text \<open>
  Claim C6. The static device and rank check is the structural fold of the spec: for
  every target device and rank, a scalar passes; a tensor leaf passes exactly when its
  device and its rank are the target's; a unary map passes exactly when its operand
  does; a binary map passes exactly when both operands do.
\<close>

theorem TypeCheck_structural:
  "TypeCheck D n (ScalarExp c) \<and>
   (TypeCheck D n (ContainerExp t) = (device t = D \<and> tdim t = n)) \<and>
   (TypeCheck D n (UnaryMapExp f a k) = TypeCheck D n a) \<and>
   (TypeCheck D n (BinaryMapExp g a b k) = (TypeCheck D n a \<and> TypeCheck D n b))"
  by simp

text \<open>
  Claim C7. The runtime shape check is the structural recursion of the spec: for every
  destination shape, a scalar matches; a tensor leaf matches exactly when its extents
  are the destination's; a unary map matches exactly when its operand does; a binary
  map matches exactly when both operands do.
\<close>

theorem ShapeCheck_structural:
  "ShapeCheck_Check (ScalarExp c) s \<and>
   (ShapeCheck_Check (ContainerExp t) s = (Shape_shape (shape t) = Shape_shape s)) \<and>
   (ShapeCheck_Check (UnaryMapExp f a k) s = ShapeCheck_Check a s) \<and>
   (ShapeCheck_Check (BinaryMapExp g a b k) s =
      (ShapeCheck_Check a s \<and> ShapeCheck_Check b s))"
  by (simp add: Shape_eq_def)

section \<open>The elementwise paths of the engine\<close>

text \<open>
  Claim C4. An elementwise evaluation that compiles (its expression passes the static
  check) and in which some tensor leaf has extents other than the destination's ends
  in the error \<open>IncompatibleShape\<close>, on both overloads, and the heap at the failure is
  the heap of the call: nothing was written, and the executor was not reached.
\<close>

theorem shape_mismatch_aborts:
  assumes "TypeCheck (device dst) (tdim dst) exp"
    and "\<exists>t \<in> set (tensors_of exp). Shape_shape (shape t) \<noteq> Shape_shape (shape dst)"
  shows "ExpEngine_Eval_kMapper order SV dst exp h = Inl (IncompatibleShape, h) \<and>
         ExpEngine_Eval_kContainer order SV dst exp h = Inl (IncompatibleShape, h)"
proof -
  from assms(2) have "\<not> ShapeCheck_Check exp (shape dst)"
    by (simp add: ShapeCheck_tensors_of)
  with assms(1) show ?thesis
    by (simp add: ExpEngine_Eval_kContainer_def ExpEngine_Eval_kMapper_def
        TypeCheckPass_def Assert_def)
qed

theorem shape_mismatch_aborts_witness:
  "TypeCheck (device ex_dst34) (tdim ex_dst34) ex_bad_exp \<and>
   (\<exists>t \<in> set (tensors_of ex_bad_exp).
      Shape_shape (shape t) \<noteq> Shape_shape (shape ex_dst34)) \<and>
   ExpEngine_Eval_kMapper ex_order saveto ex_dst34 ex_bad_exp ex_heap =
     Inl (IncompatibleShape, ex_heap) \<and>
   ExpEngine_Eval_kContainer ex_order saveto ex_dst34 ex_bad_exp ex_heap =
     Inl (IncompatibleShape, ex_heap)"
proof -
  have tc: "TypeCheck (device ex_dst34) (tdim ex_dst34) ex_bad_exp"
    by (simp add: ex_bad_exp_def ex_dst34_def ex_t35_def tdim_def)
  have ne: "\<exists>t \<in> set (tensors_of ex_bad_exp).
              Shape_shape (shape t) \<noteq> Shape_shape (shape ex_dst34)"
    by (simp add: ex_bad_exp_def ex_dst34_def ex_t35_def)
  show ?thesis
    using shape_mismatch_aborts [OF tc ne, of ex_order saveto ex_heap] tc ne by simp
qed

text \<open>
  Claim C10. On the same destination, expression, saver and heap, the overload for a
  container expression and the overload for a mapper expression have the same outcome,
  and it is the one of the same steps: the static check, the shape check with its
  failure, the compilation of the plan and the call of the executor.
\<close>

theorem container_path_is_mapper_path:
  "ExpEngine_Eval_kContainer order SV dst exp h = ExpEngine_Eval_kMapper order SV dst exp h \<and>
   ExpEngine_Eval_kContainer order SV dst exp h =
     (if TypeCheck (device dst) (tdim dst) exp
      then if ShapeCheck_Check exp (shape dst)
           then Inr (MapPlan order SV dst (MakePlan exp) h)
           else Inl (IncompatibleShape, h)
      else Inl (Error_All_Tensor_in_Exp_Must_Have_Same_Type, h))"
  by (simp add: ExpEngine_Eval_kContainer_def ExpEngine_Eval_kMapper_def
      TypeCheckPass_def Assert_def)

section \<open>Purity of plans\<close>

lemma fold_write_agree:
  assumes "footprint dst exp cs \<subseteq> F" and "\<forall>a \<in> F. hA a = hB a"
  shows "\<forall>a \<in> F. fold (write_denotation SV dst exp) cs hA a =
                  fold (write_denotation SV dst exp) cs hB a"
  using assms
proof (induction cs arbitrary: hA hB)
  case Nil
  then show ?case by simp
next
  case (Cons c cs)
  let ?hA = "write_denotation SV dst exp c hA" and ?hB = "write_denotation SV dst exp c hB"
  from Cons.prems(1) have sub: "footprint dst exp cs \<subseteq> F"
    and cell: "elem_addr dst (fst c) (snd c) \<in> F"
    and leaves: "leaf_cells exp (fst c) (snd c) \<subseteq> F"
    by (auto simp: footprint_def)
  from leaves Cons.prems(2)
  have "denotation exp hA (fst c) (snd c) = denotation exp hB (fst c) (snd c)"
    by (intro denotation_frame) auto
  with cell Cons.prems(2) have "\<forall>a \<in> F. ?hA a = ?hB a"
    by (simp add: write_denotation_def)
  with sub have "\<forall>a \<in> F. fold (write_denotation SV dst exp) cs ?hA a =
                  fold (write_denotation SV dst exp) cs ?hB a"
    by (rule Cons.IH)
  then show ?case by simp
qed

lemma MapPlan_dst_contents:
  assumes "\<forall>a \<in> footprint dst exp (order dst). hA a = hB a"
  shows "dst_contents dst (order dst) (MapPlan order SV dst (MakePlan exp) hA) =
         dst_contents dst (order dst) (MapPlan order SV dst (MakePlan exp) hB)"
proof -
  have "\<forall>a \<in> footprint dst exp (order dst).
          fold (write_denotation SV dst exp) (order dst) hA a =
          fold (write_denotation SV dst exp) (order dst) hB a"
    using subset_refl assms by (rule fold_write_agree)
  moreover have "elem_addr dst (fst c) (snd c) \<in> footprint dst exp (order dst)"
    if "c \<in> set (order dst)" for c
    using that by (auto simp: footprint_def)
  ultimately show ?thesis
    by (simp add: dst_contents_def MapPlan_MakePlan)
qed

lemma fold_write_agree_overwrite:
  assumes "overwrites SV"
    and "(\<Union>c \<in> set cs. leaf_cells exp (fst c) (snd c)) \<subseteq> F"
    and "\<forall>a \<in> F. hA a = hB a"
  shows "\<forall>a \<in> F \<union> (\<lambda>c. elem_addr dst (fst c) (snd c)) ` set cs.
           fold (write_denotation SV dst exp) cs hA a =
           fold (write_denotation SV dst exp) cs hB a"
  using assms(2,3)
proof (induction cs arbitrary: hA hB F)
  case Nil
  then show ?case by simp
next
  case (Cons c cs)
  let ?A = "\<lambda>c. elem_addr dst (fst c) (snd c)"
  let ?hA = "write_denotation SV dst exp c hA" and ?hB = "write_denotation SV dst exp c hB"
  from Cons.prems(1) have leaves: "leaf_cells exp (fst c) (snd c) \<subseteq> F"
    and rest: "(\<Union>c \<in> set cs. leaf_cells exp (fst c) (snd c)) \<subseteq> insert (?A c) F"
    by auto
  from leaves Cons.prems(2)
  have den: "denotation exp hA (fst c) (snd c) = denotation exp hB (fst c) (snd c)"
    by (intro denotation_frame) auto
  from assms(1) have "SV (hA (?A c)) (denotation exp hB (fst c) (snd c)) =
                      SV (hB (?A c)) (denotation exp hB (fst c) (snd c))"
    unfolding overwrites_def by blast
  with den Cons.prems(2) have "\<forall>a \<in> insert (?A c) F. ?hA a = ?hB a"
    by (simp add: write_denotation_def)
  with rest have "\<forall>a \<in> insert (?A c) F \<union> ?A ` set cs.
           fold (write_denotation SV dst exp) cs ?hA a =
           fold (write_denotation SV dst exp) cs ?hB a"
    by (rule Cons.IH)
  then show ?case by simp
qed

lemma fold_write_twice:
  assumes "overwrites SV" and "inputs_apart dst exp cs"
  shows "dst_contents dst cs (fold (write_denotation SV dst exp) cs
           (fold (write_denotation SV dst exp) cs h)) =
         dst_contents dst cs (fold (write_denotation SV dst exp) cs h)"
proof -
  let ?A = "\<lambda>c. elem_addr dst (fst c) (snd c)"
  let ?L = "\<Union>c \<in> set cs. leaf_cells exp (fst c) (snd c)"
  let ?h1 = "fold (write_denotation SV dst exp) cs h"
  have "\<forall>a \<in> ?L. ?h1 a = h a"
  proof
    fix a assume "a \<in> ?L"
    with assms(2) have "a \<notin> ?A ` set cs"
      by (auto simp: inputs_apart_def)
    then show "?h1 a = h a" by (rule fold_write_frame)
  qed
  with assms(1) subset_refl
  have "\<forall>a \<in> ?L \<union> ?A ` set cs.
           fold (write_denotation SV dst exp) cs ?h1 a =
           fold (write_denotation SV dst exp) cs h a"
    by (rule fold_write_agree_overwrite)
  then show ?thesis by (simp add: dst_contents_def)
qed

lemma Eval_kMapper_twice:
  assumes "overwrites SV" and "inputs_apart dst exp (order dst)"
    and "ExpEngine_Eval_kMapper order SV dst exp h = Inr h1"
    and "ExpEngine_Eval_kMapper order SV dst exp h1 = Inr h2"
  shows "dst_contents dst (order dst) h2 = dst_contents dst (order dst) h1"
proof -
  from assms(3) have h1: "h1 = fold (write_denotation SV dst exp) (order dst) h"
    by (auto simp: ExpEngine_Eval_kMapper_def TypeCheckPass_def Assert_def MapPlan_MakePlan
        split: if_splits)
  from assms(4) have h2: "h2 = fold (write_denotation SV dst exp) (order dst) h1"
    by (auto simp: ExpEngine_Eval_kMapper_def TypeCheckPass_def Assert_def MapPlan_MakePlan
        split: if_splits)
  from assms(1,2) show ?thesis unfolding h2 h1 by (rule fold_write_twice)
qed

text \<open>
  Claim C9. The evaluation of a plan at a coordinate is a function of the heap that
  returns a value and no heap: it has no effect. Its value depends on the underlying
  buffers only: on two heaps that agree on the cells the plan reads at the coordinate,
  it is the same. Consequently the same elementwise call on two heaps that agree on the
  cells the call touches has the same outcome, with the same destination contents; and
  with a saver that overwrites and inputs apart from the destination, running the call
  again on the heap it returned leaves the destination contents as the first run did.
\<close>

theorem Plan_Eval_pure:
  "(agree_on (Plan_reads p y x) hA hB \<longrightarrow> Plan_Eval p hA y x = Plan_Eval p hB y x) \<and>
   (agree_on (footprint dst exp (order dst)) hA hB \<longrightarrow>
      map_sum fst (dst_contents dst (order dst)) (ExpEngine_Eval_kMapper order SV dst exp hA) =
      map_sum fst (dst_contents dst (order dst)) (ExpEngine_Eval_kMapper order SV dst exp hB) \<and>
      map_sum fst (dst_contents dst (order dst))
        (ExpEngine_Eval_kContainer order SV dst exp hA) =
      map_sum fst (dst_contents dst (order dst))
        (ExpEngine_Eval_kContainer order SV dst exp hB)) \<and>
   (overwrites SV \<and> inputs_apart dst exp (order dst) \<longrightarrow>
      (\<forall>h1 h2. ExpEngine_Eval_kMapper order SV dst exp hA = Inr h1 \<longrightarrow>
               ExpEngine_Eval_kMapper order SV dst exp h1 = Inr h2 \<longrightarrow>
               dst_contents dst (order dst) h2 = dst_contents dst (order dst) h1))"
proof (intro conjI impI allI)
  assume "agree_on (Plan_reads p y x) hA hB"
  then have "\<forall>a \<in> Plan_reads p y x. hA a = hB a"
    by (simp add: agree_on_def)
  then show "Plan_Eval p hA y x = Plan_Eval p hB y x"
    by (rule Plan_Eval_frame)
next
  assume "agree_on (footprint dst exp (order dst)) hA hB"
  then have "\<forall>a \<in> footprint dst exp (order dst). hA a = hB a"
    by (simp add: agree_on_def)
  then have eq: "dst_contents dst (order dst) (MapPlan order SV dst (MakePlan exp) hA) =
         dst_contents dst (order dst) (MapPlan order SV dst (MakePlan exp) hB)"
    by (rule MapPlan_dst_contents)
  show "map_sum fst (dst_contents dst (order dst)) (ExpEngine_Eval_kMapper order SV dst exp hA) =
      map_sum fst (dst_contents dst (order dst)) (ExpEngine_Eval_kMapper order SV dst exp hB)"
    using eq by (simp add: ExpEngine_Eval_kMapper_def TypeCheckPass_def Assert_def)
  show "map_sum fst (dst_contents dst (order dst))
          (ExpEngine_Eval_kContainer order SV dst exp hA) =
        map_sum fst (dst_contents dst (order dst))
          (ExpEngine_Eval_kContainer order SV dst exp hB)"
    using eq by (simp add: ExpEngine_Eval_kContainer_def TypeCheckPass_def Assert_def)
next
  fix h1 h2
  assume "overwrites SV \<and> inputs_apart dst exp (order dst)"
    and "ExpEngine_Eval_kMapper order SV dst exp hA = Inr h1"
    and "ExpEngine_Eval_kMapper order SV dst exp h1 = Inr h2"
  then show "dst_contents dst (order dst) h2 = dst_contents dst (order dst) h1"
    by (intro Eval_kMapper_twice [of SV dst exp order hA h1 h2]) simp_all
qed

theorem Plan_Eval_pure_witness:
  "agree_on (Plan_reads (MakePlan ex_exp) 1 0) ex_heap ex_heap' \<and>
   agree_on (footprint ex_dst ex_exp (ex_order ex_dst)) ex_heap ex_heap' \<and>
   ex_heap \<noteq> ex_heap' \<and>
   overwrites saveto \<and> inputs_apart ex_dst ex_exp (ex_order ex_dst) \<and>
   Plan_Eval (MakePlan ex_exp) ex_heap 1 0 = Plan_Eval (MakePlan ex_exp) ex_heap' 1 0 \<and>
   map_sum fst (dst_contents ex_dst (ex_order ex_dst))
     (ExpEngine_Eval_kMapper ex_order saveto ex_dst ex_exp ex_heap) =
   map_sum fst (dst_contents ex_dst (ex_order ex_dst))
     (ExpEngine_Eval_kMapper ex_order saveto ex_dst ex_exp ex_heap') \<and>
   (\<exists>h1 h2. ExpEngine_Eval_kMapper ex_order saveto ex_dst ex_exp ex_heap = Inr h1 \<and>
            ExpEngine_Eval_kMapper ex_order saveto ex_dst ex_exp h1 = Inr h2 \<and>
            dst_contents ex_dst (ex_order ex_dst) h2 = dst_contents ex_dst (ex_order ex_dst) h1)"
proof -
  have p: "agree_on (Plan_reads (MakePlan ex_exp) 1 0) ex_heap ex_heap'"
    by (simp add: agree_on_def ex_defs ex_heap'_def)
  have f: "agree_on (footprint ex_dst ex_exp (ex_order ex_dst)) ex_heap ex_heap'"
    by (simp add: agree_on_def ex_heap'_def ex_exp_def ex_dst_def ex_a_def ex_b_def
        ex_order_def footprint_def elem_addr_def)
  have "ex_heap 100 \<noteq> ex_heap' 100"
    by (simp add: ex_heap_def ex_heap'_def)
  then have ne: "ex_heap \<noteq> ex_heap'" by metis
  have ov: "overwrites saveto"
    by (simp add: overwrites_def saveto_def)
  have ap: "inputs_apart ex_dst ex_exp (ex_order ex_dst)"
    by (simp add: inputs_apart_def ex_exp_def ex_dst_def ex_a_def ex_b_def ex_order_def
        elem_addr_def)
  have tc: "TypeCheck (device ex_dst) (tdim ex_dst) ex_exp"
    by (simp add: ex_defs tdim_def)
  have sc: "ShapeCheck_Check ex_exp (shape ex_dst)"
    by (simp add: ex_defs Shape_eq_def)
  have r: "ExpEngine_Eval_kMapper ex_order saveto ex_dst ex_exp h =
           Inr (MapPlan ex_order saveto ex_dst (MakePlan ex_exp) h)" for h
    using tc sc by (rule Eval_kMapper_checked)
  show ?thesis
    using Plan_Eval_pure [of "MakePlan ex_exp" 1 0 ex_heap ex_heap' ex_dst ex_exp ex_order saveto]
      p f ne ov ap
    by (simp add: r)
qed

section \<open>The dot product\<close>

text \<open>
  Claim C8. For a dot-product expression whose operands are on the destination's device
  (the only ones the overload takes), the engine's outcome is the outcome of the dot
  engine's \<open>Eval\<close> selected by the destination's device and rank, the operands' ranks
  and the transpose flags, called with the destination, the two operands and the
  scale. No plan is compiled and no shape is checked on the way: the outcome is neither
  of the two failures of the elementwise paths, whatever the shapes are.
\<close>

theorem DotExp_forwarded:
  assumes "device (DotExp_lhs exp) = device dst" and "device (DotExp_rhs exp) = device dst"
  shows "ExpEngine_Eval_DotExp cblas_sgemm SV dst exp h =
           DotEngine_Eval cblas_sgemm (device dst) (tdim dst)
             (tdim (DotExp_lhs exp)) (tdim (DotExp_rhs exp)) (ltrans exp) (rtrans exp)
             dst (DotExp_lhs exp) (DotExp_rhs exp) (DotExp_scale exp) h \<and>
         (\<forall>h'. ExpEngine_Eval_DotExp cblas_sgemm SV dst exp h \<noteq> Inl (IncompatibleShape, h')) \<and>
         (\<forall>h'. ExpEngine_Eval_DotExp cblas_sgemm SV dst exp h \<noteq>
                 Inl (Error_All_Tensor_in_Exp_Must_Have_Same_Type, h'))"
  using assms by (simp add: ExpEngine_Eval_DotExp_def dot_defs Let_def)

theorem DotExp_forwarded_witness:
  "device (DotExp_lhs ex_dot) = device ex_mdst \<and> device (DotExp_rhs ex_dot) = device ex_mdst \<and>
   ExpEngine_Eval_DotExp ex_sgemm saveto ex_mdst ex_dot ex_heap =
     DotEngine_Eval ex_sgemm cpu 2 2 2 True False ex_mdst ex_lhs ex_rhs 1 ex_heap"
proof -
  have l: "device (DotExp_lhs ex_dot) = device ex_mdst"
    by (simp add: ex_dot_def ex_mdst_def ex_lhs_def)
  have r: "device (DotExp_rhs ex_dot) = device ex_mdst"
    by (simp add: ex_dot_def ex_mdst_def ex_rhs_def)
  have "device ex_mdst = cpu" "tdim ex_mdst = 2" "tdim ex_lhs = 2" "tdim ex_rhs = 2"
    by (simp_all add: ex_mdst_def ex_lhs_def ex_rhs_def tdim_def)
  then show ?thesis
    using DotExp_forwarded [OF l r, of ex_sgemm saveto ex_heap] l r
    by (simp add: ex_dot_def)
qed

text \<open>A tensor of rank 2 has exactly the two extents that the dot engine reads.\<close>

lemma rank_2_extents: "tdim t = 2 \<Longrightarrow> Shape_shape (shape t) = [rows t, cols t]"
proof -
  assume "tdim t = 2"
  then have "length (Shape_shape (shape t)) = 2" by (simp add: tdim_def)
  then obtain r c where "Shape_shape (shape t) = [r, c]"
    by (cases "Shape_shape (shape t)" rule: list.exhaust)
      (auto simp: length_Suc_conv)
  then show ?thesis by (simp add: rows_def cols_def Shape_index_def)
qed

text \<open>
  The call of the backend that the host matrix by matrix form makes, with every
  argument: the leading dimensions of both operands and of the destination are row
  counts of the operands after their flags are applied.
\<close>

lemma sgemm_leading_dimensions:
  "DotEngine_Eval cblas_sgemm cpu 2 2 2 ltrans' rtrans' dst lhs rhs scale h =
     Inr (cblas_sgemm CblasColMajor (trans_directive ltrans') (trans_directive rtrans')
            (op_rows ltrans' lhs) (op_cols rtrans' rhs) (op_cols ltrans' lhs) scale
            (dptr lhs) (op_rows ltrans' lhs) (dptr rhs) (op_rows rtrans' rhs) 0
            (dptr dst) (op_rows ltrans' lhs) h)"
  by (simp add: DotEngine_Eval_def DotEngine_cpu_2_2_2_Eval_def Let_def trans_directive_def
      op_rows_def op_cols_def rows_def cols_def)

text \<open>
  Claim C2. The host matrix by matrix form, for every pair of transpose flags and every
  scale, returns what one call of the backend's general matrix multiply leaves, whatever
  the backend is: the layout is column-major, the transpose directives are the flags, M
  and K are the row and column counts of the left operand and N is the column count of
  the right operand, each taken after the operand's flag has swapped its counts, the
  multiply coefficient is the scale and the accumulate coefficient is zero.
\<close>

theorem sgemm_call:
  "\<exists>LDA LDB LDC. \<forall>cblas_sgemm h.
     DotEngine_Eval cblas_sgemm cpu 2 2 2 ltrans' rtrans' dst lhs rhs scale h =
     Inr (cblas_sgemm CblasColMajor (trans_directive ltrans') (trans_directive rtrans')
            (op_rows ltrans' lhs) (op_cols rtrans' rhs) (op_cols ltrans' lhs) scale
            (dptr lhs) LDA (dptr rhs) LDB 0 (dptr dst) LDC h)"
proof (intro exI allI)
  fix cblas_sgemm :: "('a, 'b::zero) sgemm" and h
  show "DotEngine_Eval cblas_sgemm cpu 2 2 2 ltrans' rtrans' dst lhs rhs scale h =
     Inr (cblas_sgemm CblasColMajor (trans_directive ltrans') (trans_directive rtrans')
            (op_rows ltrans' lhs) (op_cols rtrans' rhs) (op_cols ltrans' lhs) scale
            (dptr lhs) (op_rows ltrans' lhs) (dptr rhs) (op_rows rtrans' rhs) 0
            (dptr dst) (op_rows ltrans' lhs) h)"
    by (rule sgemm_leading_dimensions)
qed

text \<open>
  Claim C5. With the left operand marked transposed, the code passes as its leading
  dimension the extent \<^verbatim>\<open>shape[1]\<close>, here 3, and not the row extent \<^verbatim>\<open>shape[0]\<close> that
  the operand has before the transpose, here 2. The claim does not hold of the code.
\<close>

theorem leading_dimension_of_transposed:
  "DotEngine_Eval cblas_sgemm cpu 2 2 2 True False ex_mdst ex_lhs ex_rhs (1::int) h =
     Inr (cblas_sgemm CblasColMajor CblasTrans CblasNoTrans 3 4 2 1
            (dptr ex_lhs) 3 (dptr ex_rhs) 2 0 (dptr ex_mdst) 3 h) \<and>
   rows ex_lhs = 2 \<and> cols ex_lhs = 3"
  by (simp add: sgemm_leading_dimensions trans_directive_def op_rows_def op_cols_def
      rows_def cols_def Shape_index_def ex_lhs_def ex_rhs_def ex_mdst_def)

text \<open>
  The five forms of the dot engine whose body is a note of work to do return at once:
  the heap is unchanged, the backend is not called, and nothing fails.
\<close>

lemma DotEngine_stubs:
  "DotEngine_Eval sg cpu 1 1 2 False rt dst lhs rhs scale h = Inr h"
  "DotEngine_Eval sg cpu 2 1 1 True False dst lhs rhs scale h = Inr h"
  "DotEngine_Eval sg gpu 2 2 2 lt rt dst lhs rhs scale h = Inr h"
  "DotEngine_Eval sg gpu 1 1 2 False rt dst lhs rhs scale h = Inr h"
  "DotEngine_Eval sg gpu 2 1 1 True False dst lhs rhs scale h = Inr h"
  by (simp_all add: dot_defs)

text \<open>
  Claim C3. The host vector by matrix form, called through the engine on a vector and a
  matrix, returns normally with the heap it was given, for every backend: it does not
  fail. The claim does not hold of the code.
\<close>

theorem stub_returns_silently:
  "ExpEngine_Eval_DotExp cblas_sgemm saveto ex_vdst ex_vdot ex_heap = Inr ex_heap"
  by (simp add: ExpEngine_Eval_DotExp_def ex_vdot_def ex_vdst_def ex_vec_def ex_rhs_def
      tdim_def dot_defs)

end
